theory Spec2Isabelle
  imports Complex_Main
begin

section \<open>The parsed document\<close>

text \<open>
  \<^verbatim>\<open>webscrapper.py\<close> works on the tree that \<^verbatim>\<open>BeautifulSoup(response.content, 'html.parser')\<close>
  builds. The tree is modelled as the module uses it: a tag has a name, a dictionary of
  attributes (an association list, read by its first entry for a key) and a list of
  children; a leaf is a string of the page, of the kind that \<^verbatim>\<open>get_text\<close> reads (comments
  and the like are not part of the tree). The \<^verbatim>\<open>BeautifulSoup\<close> object is the root tag.
  A \<^verbatim>\<open>Tag\<close> of bs4 is always truthy, so \<^verbatim>\<open>if not soup\<close> holds for \<^verbatim>\<open>None\<close> only: a
  document that may be absent is a \<open>node option\<close>.
\<close>

datatype node =
    Tag string "(string \<times> string) list" "node list"
  | NavigableString string

text \<open>All nodes below a node, in document order (the node itself is not among them).\<close>

fun descendants :: "node \<Rightarrow> node list" where
  "descendants (Tag nm ats cs) = concat (map (\<lambda>c. c # descendants c) cs)"
| "descendants (NavigableString s) = []"

fun is_tag_named :: "string list \<Rightarrow> node \<Rightarrow> bool" where
  "is_tag_named nms (Tag nm ats cs) = (nm \<in> set nms)"
| "is_tag_named nms (NavigableString s) = False"

text \<open>\<^verbatim>\<open>tag.get(key, default)\<close>.\<close>

fun tag_get :: "node \<Rightarrow> string \<Rightarrow> string \<Rightarrow> string" where
  "tag_get (Tag nm ats cs) k dflt = (case map_of ats k of Some v \<Rightarrow> v | None \<Rightarrow> dflt)"
| "tag_get (NavigableString s) k dflt = dflt"

fun has_attr :: "string \<Rightarrow> string \<Rightarrow> node \<Rightarrow> bool" where
  "has_attr k v (Tag nm ats cs) = (map_of ats k = Some v)"
| "has_attr k v (NavigableString s) = False"

text \<open>\<^verbatim>\<open>node.find_all(name)\<close> and \<^verbatim>\<open>node.find_all([name1, name2])\<close>.\<close>

definition find_all :: "string list \<Rightarrow> node \<Rightarrow> node list" where
  "find_all nms d = filter (is_tag_named nms) (descendants d)"

text \<open>\<^verbatim>\<open>node.find(name)\<close>: the first match, or \<^verbatim>\<open>None\<close>.\<close>

definition find_first :: "string \<Rightarrow> node \<Rightarrow> node option" where
  "find_first nm d = (case find_all [nm] d of [] \<Rightarrow> None | x # xs \<Rightarrow> Some x)"

text \<open>\<^verbatim>\<open>node.find(name, attrs={k: v})\<close>.\<close>

definition find_attrs :: "string \<Rightarrow> string \<Rightarrow> string \<Rightarrow> node \<Rightarrow> node option" where
  "find_attrs nm k v d =
     (case filter (has_attr k v) (find_all [nm] d) of [] \<Rightarrow> None | x # xs \<Rightarrow> Some x)"

text \<open>
  \<^verbatim>\<open>str.strip()\<close>. A character of \<open>string\<close> stands for a code point below 256. Among
  these the white space of Python is tab, line feed, vertical tab, form feed, carriage
  return, the four separators \<open>0x1c\<close> to \<open>0x1f\<close>, the space, the next-line character
  \<open>0x85\<close> and the no-break space \<open>0xa0\<close>. The white space of Unicode beyond 255 has no
  character in this type.
\<close>

definition py_isspace :: "char \<Rightarrow> bool" where
  "py_isspace c =
     (let n = of_char c :: nat
      in (9 \<le> n \<and> n \<le> 13) \<or> (28 \<le> n \<and> n \<le> 32) \<or> n = 133 \<or> n = 160)"

definition strip :: "string \<Rightarrow> string" where
  "strip s = rev (dropWhile py_isspace (rev (dropWhile py_isspace s)))"

text \<open>
  \<^verbatim>\<open>elem.get_text(strip=True)\<close>: every string below the element is stripped, the ones
  left empty are skipped, and the rest are joined with the empty separator.
\<close>

fun strings_of :: "node \<Rightarrow> string list" where
  "strings_of (NavigableString s) = [s]"
| "strings_of (Tag nm ats cs) = concat (map strings_of cs)"

definition get_text :: "node \<Rightarrow> string" where
  "get_text e = concat (filter (\<lambda>s. s \<noteq> []) (map strip (strings_of e)))"

section \<open>Python values, dictionaries and exceptions\<close>

text \<open>
  A \<^verbatim>\<open>dict\<close> keeps its keys in insertion order and holds each key once: it is an
  association list with distinct keys. \<^verbatim>\<open>d[k] = v\<close> replaces the value where the key
  is present and appends the pair otherwise.
\<close>

datatype pyval = Str string | Strs "string list" | Num int

type_synonym 'v dict = "(string \<times> 'v) list"

fun dict_set :: "'v dict \<Rightarrow> string \<Rightarrow> 'v \<Rightarrow> 'v dict" where
  "dict_set [] k v = [(k, v)]"
| "dict_set ((k', v') # d) k v = (if k' = k then (k, v) # d else (k', v') # dict_set d k v)"

definition keys :: "'v dict \<Rightarrow> string list" where
  "keys d = map fst d"

definition dict_get :: "'v dict \<Rightarrow> string \<Rightarrow> 'v option" where
  "dict_get d k = map_of d k"

text \<open>\<^verbatim>\<open>dict(pairs)\<close>: the pairs are stored one after the other.\<close>

definition dict_of :: "(string \<times> 'v) list \<Rightarrow> 'v dict" where
  "dict_of ps = foldl (\<lambda>d (k, v). dict_set d k v) [] ps"

text \<open>
  The exceptions that leave the code where they arise, each with its message. A
  \<^verbatim>\<open>RequestException\<close> and an \<^verbatim>\<open>OSError\<close> are caught in the method that meets them; there
  the model has the message alone.
\<close>

datatype exn =
    ValueError string
  | TypeError string
  | IndexError string
  | OverflowError string
  | LocationParseError string
  | ParserRejectedMarkup string
  | OtherException string string

text \<open>The message of an exception, as \<^verbatim>\<open>f"{e}"\<close> prints it.\<close>

fun exn_str :: "exn \<Rightarrow> string" where
  "exn_str (ValueError m) = m"
| "exn_str (TypeError m) = m"
| "exn_str (IndexError m) = m"
| "exn_str (OverflowError m) = m"
| "exn_str (LocationParseError m) = m"
| "exn_str (ParserRejectedMarkup m) = m"
| "exn_str (OtherException cls m) = m"

section \<open>The scraper and its collaborators\<close>

text \<open>
  The module calls \<^verbatim>\<open>urllib.parse.urljoin\<close> and \<^verbatim>\<open>urllib.parse.urlparse(...).netloc\<close>
  of the standard library. They are not code of the module: the extractors take them as
  parameters, and what is proved holds for every pair of functions.
\<close>

record urllib =
  urljoin :: "string \<Rightarrow> string \<Rightarrow> string"
  netloc :: "string \<Rightarrow> string"

text \<open>
  A response of \<^verbatim>\<open>requests\<close>: the status code, the reason phrase, the URL that answered
  and the body. The body is carried as what \<^verbatim>\<open>BeautifulSoup(response.content, 'html.parser')\<close>
  makes of it: the tree, or the exception that the parser raises on markup it rejects.
\<close>

record response =
  status_code :: nat
  reason :: string
  response_url :: string
  soup_of_content :: "exn + node"

text \<open>
  \<^verbatim>\<open>session.get(url, timeout=10)\<close> returns a response, or raises an exception of the class
  \<^verbatim>\<open>RequestException\<close> (connection error, timeout) with its message, or raises an exception of
  another class: \<^verbatim>\<open>requests\<close> lets the \<^verbatim>\<open>LocationParseError\<close> of urllib3 through for a host
  such as \<^verbatim>\<open>a..com\<close>. Its answer is taken as a function of the URL.
\<close>

datatype get_result =
    Raises_RequestException string
  | Raises exn
  | Returns response

record scraper =
  base_url :: string
  delay :: real
  session_get :: "string \<Rightarrow> get_result"

section \<open>Extractors\<close>

text \<open>
  \<^verbatim>\<open>list(set(links))\<close>: the elements of the list once each, in the order in which the
  set iterates. That order depends on the hashes of the strings; it is modelled as the
  order of a key \<open>h\<close> on the strings, a parameter, so that every result is a permutation of
  the distinct links and nothing is proved about which one.
\<close>

definition list_of_set :: "(string \<Rightarrow> nat) \<Rightarrow> string list \<Rightarrow> string list" where
  "list_of_set h xs = sort_key h (remdups xs)"

text \<open>
  \<^verbatim>\<open>soup.find_all('a', href=True)\<close> followed by \<^verbatim>\<open>link['href']\<close>: the \<^verbatim>\<open>href\<close> of
  every anchor that has one.
\<close>

fun href_of :: "node \<Rightarrow> string option" where
  "href_of (Tag nm ats cs) = (if nm = ''a'' then map_of ats ''href'' else None)"
| "href_of (NavigableString s) = None"

definition anchors_href :: "node \<Rightarrow> string list" where
  "anchors_href d = List.map_filter href_of (descendants d)"

text \<open>The loop of \<^verbatim>\<open>extract_links\<close>, with the list \<^verbatim>\<open>links\<close> it appends to.\<close>

fun links_loop :: "urllib \<Rightarrow> scraper \<Rightarrow> bool \<Rightarrow> string list \<Rightarrow> string list \<Rightarrow> string list" where
  "links_loop L self filter_internal [] links = links"
| "links_loop L self filter_internal (href # rest) links =
     (let url = urljoin L (base_url self) href in
      if filter_internal then
        (if netloc L url = netloc L (base_url self)
         then links_loop L self filter_internal rest (links @ [url])
         else links_loop L self filter_internal rest links)
      else links_loop L self filter_internal rest (links @ [url]))"

definition extract_links ::
  "urllib \<Rightarrow> (string \<Rightarrow> nat) \<Rightarrow> scraper \<Rightarrow> node option \<Rightarrow> bool \<Rightarrow> string list" where
  "extract_links L h self soup filter_internal =
     (case soup of
        None \<Rightarrow> []
      | Some d \<Rightarrow> list_of_set h (links_loop L self filter_internal (anchors_href d) []))"

definition extract_text :: "node option \<Rightarrow> string \<Rightarrow> string list" where
  "extract_text soup tag =
     (case soup of
        None \<Rightarrow> []
      | Some d \<Rightarrow> filter (\<lambda>t. t \<noteq> []) (map get_text (find_all [tag] d)))"

fun images_loop :: "urllib \<Rightarrow> scraper \<Rightarrow> node list \<Rightarrow> string dict list \<Rightarrow> string dict list" where
  "images_loop L self [] images = images"
| "images_loop L self (img # rest) images =
     (let img_url = tag_get img ''src'' '''' in
      if img_url \<noteq> [] then
        (let full_url = urljoin L (base_url self) img_url in
         images_loop L self rest
           (images @ [[(''url'', full_url), (''alt'', tag_get img ''alt'' ''No alt text'')]]))
      else images_loop L self rest images)"

definition extract_images :: "urllib \<Rightarrow> scraper \<Rightarrow> node option \<Rightarrow> string dict list" where
  "extract_images L self soup =
     (case soup of
        None \<Rightarrow> []
      | Some d \<Rightarrow> images_loop L self (find_all [''img''] d) [])"

definition extract_metadata :: "node option \<Rightarrow> string dict" where
  "extract_metadata soup =
     (case soup of
        None \<Rightarrow> []
      | Some d \<Rightarrow>
          (let metadata = [];
               title = find_first ''title'' d;
               metadata = dict_set metadata ''title''
                 (case title of Some t \<Rightarrow> get_text t | None \<Rightarrow> ''No title'');
               description = find_attrs ''meta'' ''name'' ''description'' d;
               metadata = dict_set metadata ''description''
                 (case description of
                    Some m \<Rightarrow> tag_get m ''content'' ''No description''
                  | None \<Rightarrow> ''No description'');
               keywords = find_attrs ''meta'' ''name'' ''keywords'' d;
               metadata = dict_set metadata ''keywords''
                 (case keywords of
                    Some m \<Rightarrow> tag_get m ''content'' ''No keywords''
                  | None \<Rightarrow> ''No keywords'')
           in metadata))"

section \<open>The world outside the scraper\<close>

text \<open>
  What the methods do besides returning a value is written into a state that they take
  and return: the lines printed, the seconds slept, the objects on the heap (a
  caller's function may return a reference to a dictionary that the scraper then
  updates in place), and the files. A CSV file is held as the list of rows handed to
  the \<^verbatim>\<open>csv\<close> writer, each row a list of fields. \<open>open_error\<close> gives, for a path, the
  message of the \<^verbatim>\<open>OSError\<close> that opening it for writing raises, if it does.
\<close>

datatype pyobj = Dict "pyval dict" | Other

record world =
  stdout :: "string list"
  slept :: real
  heap :: "pyobj list"
  files :: "string \<Rightarrow> string list list option"
  open_error :: "string \<Rightarrow> string option"

definition print :: "string \<Rightarrow> world \<Rightarrow> world" where
  "print line w = w\<lparr>stdout := stdout w @ [line]\<rparr>"

section \<open>Fetching a page\<close>

text \<open>The decimal digits of a number, as \<^verbatim>\<open>f"{n}"\<close> prints them.\<close>

definition digit :: "nat \<Rightarrow> char" where
  "digit d = ''0123456789'' ! d"

fun str_nat :: "nat \<Rightarrow> string" where
  "str_nat n = (if n < 10 then [digit n] else str_nat (n div 10) @ [digit (n mod 10)])"

declare str_nat.simps [simp del]

text \<open>
  \<^verbatim>\<open>response.raise_for_status()\<close> raises an \<^verbatim>\<open>HTTPError\<close>, a \<^verbatim>\<open>RequestException\<close>, for the
  status codes 400 to 599; the result is its message.
\<close>

definition raise_for_status :: "response \<Rightarrow> string option" where
  "raise_for_status r =
     (if 400 \<le> status_code r \<and> status_code r < 500
      then Some (str_nat (status_code r) @ '' Client Error: '' @ reason r
                 @ '' for url: '' @ response_url r)
      else if 500 \<le> status_code r \<and> status_code r < 600
      then Some (str_nat (status_code r) @ '' Server Error: '' @ reason r
                 @ '' for url: '' @ response_url r)
      else None)"

text \<open>
  \<^verbatim>\<open>time.sleep(secs)\<close> turns its argument into a signed 64-bit number of nanoseconds,
  rounding away from zero, and raises \<^verbatim>\<open>OverflowError\<close> when that does not fit; it raises
  \<^verbatim>\<open>ValueError\<close> for a negative argument. \<open>sleep_error\<close> is the exception, if there is one.
\<close>

definition sleep_error :: "real \<Rightarrow> exn option" where
  "sleep_error secs =
     (if secs * 10 ^ 9 < - (2 ^ 63) \<or> 2 ^ 63 - 1 < secs * 10 ^ 9
      then Some (OverflowError ''timestamp too large to convert to C _PyTime_t'')
      else if secs < 0 then Some (ValueError ''sleep length must be non-negative'')
      else None)"

definition sleep :: "real \<Rightarrow> world \<Rightarrow> exn + world" where
  "sleep secs w =
     (case sleep_error secs of
        Some e \<Rightarrow> Inl e
      | None \<Rightarrow> Inr (w\<lparr>slept := slept w + secs\<rparr>))"

text \<open>
  \<^verbatim>\<open>fetch_page\<close>: the \<^verbatim>\<open>try\<close> block catches \<^verbatim>\<open>requests.exceptions.RequestException\<close> only.
  An exception of another class that \<^verbatim>\<open>session.get\<close> raises, the exception of
  \<^verbatim>\<open>time.sleep\<close> and the exception of the parser leave the method. The result is \<open>Inl\<close>
  for an exception that leaves it, \<open>Inr None\<close> for \<^verbatim>\<open>None\<close> and \<open>Inr (Some soup)\<close> for a
  document. Printing is taken to succeed.
\<close>

definition fetch_page :: "scraper \<Rightarrow> string \<Rightarrow> world \<Rightarrow> (exn + node option) \<times> world" where
  "fetch_page self url w =
     (let w1 = print (''Fetching: '' @ url) w in
      case session_get self url of
        Raises_RequestException e \<Rightarrow>
          (Inr None, print (''Error fetching '' @ url @ '': '' @ e) w1)
      | Raises e \<Rightarrow> (Inl e, w1)
      | Returns response \<Rightarrow>
          (case raise_for_status response of
             Some e \<Rightarrow> (Inr None, print (''Error fetching '' @ url @ '': '' @ e) w1)
           | None \<Rightarrow>
               (case sleep (delay self) w1 of
                  Inl e \<Rightarrow> (Inl e, w1)
                | Inr w2 \<Rightarrow>
                    (case soup_of_content response of
                       Inl e \<Rightarrow> (Inl e, w2)
                     | Inr soup \<Rightarrow> (Inr (Some soup), w2)))))"

section \<open>Scraping a table\<close>

text \<open>\<^verbatim>\<open>xs[i]\<close> for a Python integer: a negative index counts from the end.\<close>

definition py_index :: "'a list \<Rightarrow> int \<Rightarrow> exn + 'a" where
  "py_index xs i =
     (if 0 \<le> i \<and> i < int (length xs) then Inr (xs ! nat i)
      else if i < 0 \<and> - int (length xs) \<le> i then Inr (xs ! nat (int (length xs) + i))
      else Inl (IndexError ''list index out of range''))"

text \<open>The header cells: lines 198 to 200 of \<^verbatim>\<open>scrape_table\<close>.\<close>

definition table_headers :: "node \<Rightarrow> string list" where
  "table_headers table =
     (case find_first ''tr'' table of
        Some header_row \<Rightarrow> map get_text (find_all [''th'', ''td''] header_row)
      | None \<Rightarrow> [])"

definition row_cells :: "node \<Rightarrow> string list" where
  "row_cells row = map get_text (find_all [''td'', ''th''] row)"

text \<open>\<^verbatim>\<open>table.find_all('tr')[1:]\<close>.\<close>

definition data_rows :: "node \<Rightarrow> node list" where
  "data_rows table = drop 1 (find_all [''tr''] table)"

text \<open>The loop over the data rows, with the list \<^verbatim>\<open>rows\<close> it appends to.\<close>

fun rows_loop :: "string list \<Rightarrow> node list \<Rightarrow> pyval dict list \<Rightarrow> pyval dict list" where
  "rows_loop headers [] rows = rows"
| "rows_loop headers (row # rest) rows =
     (let cells = row_cells row in
      if cells \<noteq> [] then
        (if headers \<noteq> []
         then rows_loop headers rest (rows @ [dict_of (zip headers (map Str cells))])
         else rows_loop headers rest (rows @ [[(''data'', Strs cells)]]))
      else rows_loop headers rest rows)"

definition scrape_table ::
  "scraper \<Rightarrow> string \<Rightarrow> int \<Rightarrow> world \<Rightarrow> (exn + pyval dict list) \<times> world" where
  "scrape_table self url table_index w =
     (case fetch_page self url w of
        (Inl e, w1) \<Rightarrow> (Inl e, w1)
      | (Inr None, w1) \<Rightarrow> (Inr [], w1)
      | (Inr (Some soup), w1) \<Rightarrow>
          (let tables = find_all [''table''] soup in
           if tables = [] \<or> table_index \<ge> int (length tables)
           then (Inr [], print ''Table not found'' w1)
           else
             (case py_index tables table_index of
                Inl e \<Rightarrow> (Inl e, w1)
              | Inr table \<Rightarrow> (Inr (rows_loop (table_headers table) (data_rows table) []), w1))))"

section \<open>Saving to CSV\<close>

text \<open>
  \<^verbatim>\<open>csv.DictWriter(f, fieldnames=data[0].keys())\<close> with its defaults: a key of a row that
  is not a field name raises \<^verbatim>\<open>ValueError\<close> (\<^verbatim>\<open>extrasaction='raise'\<close>), and a field name that
  the row lacks is written as the empty string (\<^verbatim>\<open>restval=''\<close>). \<open>str_of\<close> is the text the
  writer makes of a value. In the message of the \<^verbatim>\<open>ValueError\<close> the keys are listed in
  the order of the row, each between single quotes.
\<close>

fun join :: "string \<Rightarrow> string list \<Rightarrow> string" where
  "join sep [] = []"
| "join sep [x] = x"
| "join sep (x # y # ys) = x @ sep @ join sep (y # ys)"

definition repr :: "string \<Rightarrow> string" where
  "repr k = [CHR 0x27] @ k @ [CHR 0x27]"

definition dict_to_list :: "('v \<Rightarrow> string) \<Rightarrow> string list \<Rightarrow> 'v dict \<Rightarrow> exn + string list" where
  "dict_to_list str_of fieldnames rowdict =
     (let wrong_fields = filter (\<lambda>k. k \<notin> set fieldnames) (keys rowdict) in
      if wrong_fields \<noteq> []
      then Inl (ValueError (''dict contains fields not in fieldnames: ''
                            @ join '', '' (map repr wrong_fields)))
      else Inr (map (\<lambda>key. case dict_get rowdict key of Some v \<Rightarrow> str_of v | None \<Rightarrow> [])
                  fieldnames))"

text \<open>One row more at the end of the file.\<close>

definition write_row :: "string \<Rightarrow> string list \<Rightarrow> world \<Rightarrow> world" where
  "write_row filename row w =
     w\<lparr>files := (files w)
          (filename := Some ((case files w filename of Some rows \<Rightarrow> rows | None \<Rightarrow> []) @ [row]))\<rparr>"

text \<open>
  \<^verbatim>\<open>writer.writerows(data)\<close> writes the rows one after the other; the rows before the one
  that raises are in the file.
\<close>

fun writerows ::
  "('v \<Rightarrow> string) \<Rightarrow> string list \<Rightarrow> 'v dict list \<Rightarrow> string \<Rightarrow> world \<Rightarrow> (exn + unit) \<times> world" where
  "writerows str_of fieldnames [] filename w = (Inr (), w)"
| "writerows str_of fieldnames (rowdict # rest) filename w =
     (case dict_to_list str_of fieldnames rowdict of
        Inl e \<Rightarrow> (Inl e, w)
      | Inr row \<Rightarrow> writerows str_of fieldnames rest filename (write_row filename row w))"

text \<open>
  \<^verbatim>\<open>save_to_csv\<close> returns nothing: its result is the world it leaves. Opening the file
  for writing empties it; every exception inside the \<^verbatim>\<open>try\<close> block is caught and printed.
\<close>

definition save_to_csv :: "('v \<Rightarrow> string) \<Rightarrow> 'v dict list \<Rightarrow> string \<Rightarrow> world \<Rightarrow> world" where
  "save_to_csv str_of data filename w =
     (case data of
        [] \<Rightarrow> print ''No data to save'' w
      | first # others \<Rightarrow>
          (case open_error w filename of
             Some e \<Rightarrow> print (''Error saving to CSV: '' @ e) w
           | None \<Rightarrow>
               (let w1 = w\<lparr>files := (files w)(filename := Some [])\<rparr>;
                    fieldnames = keys first;
                    w2 = write_row filename fieldnames w1
                in case writerows str_of fieldnames data filename w2 of
                     (Inl e, w3) \<Rightarrow> print (''Error saving to CSV: '' @ exn_str e) w3
                   | (Inr u, w3) \<Rightarrow> print (''Data saved to '' @ filename) w3)))"

section \<open>Scraping several pages\<close>

text \<open>
  \<^verbatim>\<open>extract_func(soup)\<close> is a function of the caller: it returns a reference to an object
  on the heap, and may print and allocate on the way. \<^verbatim>\<open>data['url'] = url\<close> updates the
  object behind the reference in place, and raises \<^verbatim>\<open>TypeError\<close> when the object is not a
  dictionary. \<^verbatim>\<open>all_data\<close> is the list of the references.
\<close>

definition setitem :: "nat \<Rightarrow> string \<Rightarrow> pyval \<Rightarrow> world \<Rightarrow> exn + world" where
  "setitem a k v w =
     (if a < length (heap w) then
        (case heap w ! a of
           Dict d \<Rightarrow> Inr (w\<lparr>heap := (heap w)[a := Dict (dict_set d k v)]\<rparr>)
         | Other \<Rightarrow> Inl (TypeError ''object does not support item assignment''))
      else Inl (TypeError ''object does not support item assignment''))"

fun pages_loop ::
  "scraper \<Rightarrow> (node \<Rightarrow> world \<Rightarrow> nat \<times> world) \<Rightarrow> string list \<Rightarrow> nat list \<Rightarrow> world
     \<Rightarrow> (exn + nat list) \<times> world" where
  "pages_loop self extract_func [] all_data w = (Inr all_data, w)"
| "pages_loop self extract_func (url # rest) all_data w =
     (case fetch_page self url w of
        (Inl e, w1) \<Rightarrow> (Inl e, w1)
      | (Inr None, w1) \<Rightarrow> pages_loop self extract_func rest all_data w1
      | (Inr (Some soup), w1) \<Rightarrow>
          (case extract_func soup w1 of
             (data, w2) \<Rightarrow>
               (case setitem data ''url'' (Str url) w2 of
                  Inl e \<Rightarrow> (Inl e, w2)
                | Inr w3 \<Rightarrow> pages_loop self extract_func rest (all_data @ [data]) w3)))"

definition scrape_multiple_pages ::
  "scraper \<Rightarrow> string list \<Rightarrow> (node \<Rightarrow> world \<Rightarrow> nat \<times> world) \<Rightarrow> world
     \<Rightarrow> (exn + nat list) \<times> world" where
  "scrape_multiple_pages self urls extract_func w = pages_loop self extract_func urls [] w"

text \<open>What \<^verbatim>\<open>record['url']\<close> reads from the record behind a reference.\<close>

definition url_of :: "world \<Rightarrow> nat \<Rightarrow> pyval option" where
  "url_of w a =
     (if a < length (heap w) then
        (case heap w ! a of Dict d \<Rightarrow> dict_get d ''url'' | Other \<Rightarrow> None)
      else None)"

text \<open>
  An extraction function that builds its record anew on every call: the reference it
  returns is to a dictionary that was not on the heap before the call, and the objects
  that were there are as they were.
\<close>

definition returns_new_record :: "(node \<Rightarrow> world \<Rightarrow> nat \<times> world) \<Rightarrow> bool" where
  "returns_new_record f =
     (\<forall>soup w. case f soup w of
        (a, w') \<Rightarrow>
          length (heap w) \<le> a \<and> a < length (heap w')
          \<and> (\<exists>d. heap w' ! a = Dict d)
          \<and> take (length (heap w)) (heap w') = heap w)"

section \<open>Examples used by the witnesses\<close>

text \<open>
  A stand-in for the two library functions on the URLs of the examples below: a
  reference that starts with a slash is appended to the base, any other is taken as
  absolute already, and the network location is what follows \<^verbatim>\<open>http://\<close> up to the
  next slash. On these URLs the library computes the same.
\<close>

definition example_urllib :: urllib where
  "example_urllib =
     \<lparr> urljoin = (\<lambda>b u. if take 1 u = ''/'' then b @ u else u),
       netloc = (\<lambda>u. takeWhile (\<lambda>c. c \<noteq> CHR ''/'') (drop 7 u)) \<rparr>"

definition example_scraper :: "(string \<Rightarrow> get_result) \<Rightarrow> scraper" where
  "example_scraper g = \<lparr> base_url = ''http://a.com'', delay = 1, session_get = g \<rparr>"

definition no_network :: "string \<Rightarrow> get_result" where
  "no_network u = Raises_RequestException ''Connection refused''"

definition example_page :: node where
  "example_page =
     Tag ''[document]'' []
       [Tag ''p'' [] [NavigableString '' Hello '']
       , Tag ''a'' [(''href'', ''/x'')] [NavigableString ''x'']
       , Tag ''a'' [(''href'', ''http://b.org/y'')] [NavigableString ''y'']
       , Tag ''a'' [(''href'', ''/x'')] [NavigableString ''x again'']
       , Tag ''a'' [] [NavigableString ''no target'']]"

definition table_node :: node where
  "table_node =
     Tag ''table'' []
       [Tag ''tr'' [] [Tag ''th'' [] [NavigableString ''h1''], Tag ''th'' [] [NavigableString ''h2'']]
       , Tag ''tr'' [] [Tag ''td'' [] [NavigableString ''a''], Tag ''td'' [] [NavigableString '' b '']]
       , Tag ''tr'' [] [Tag ''td'' [] [NavigableString ''c'']]]"

definition table_page :: node where
  "table_page = Tag ''[document]'' [] [Tag ''h1'' [] [NavigableString ''Prices''], table_node]"

definition gappy_node :: node where
  "gappy_node =
     Tag ''table'' []
       [Tag ''tr'' [] [Tag ''th'' [] [NavigableString ''h1''], Tag ''th'' [] [NavigableString ''h2'']]
       , Tag ''tr'' [] [Tag ''td'' [] [NavigableString ''a''], Tag ''td'' [] [NavigableString ''b'']]
       , Tag ''tr'' [] []
       , Tag ''tr'' [] [Tag ''td'' [] [NavigableString ''c'']]]"

definition gappy_page :: node where
  "gappy_page = Tag ''[document]'' [] [gappy_node]"

text \<open>
  A network for the examples: \<^verbatim>\<open>u1\<close> and \<^verbatim>\<open>u3\<close> answer with a page, the connection to
  \<^verbatim>\<open>u2\<close> is refused, two URLs answer with a table, the host \<^verbatim>\<open>a..com\<close> has an empty
  label, for which \<^verbatim>\<open>session.get\<close> raises the \<^verbatim>\<open>LocationParseError\<close> of urllib3, and every
  other URL is not found.
\<close>

definition ok_response :: "string \<Rightarrow> node \<Rightarrow> response" where
  "ok_response u d =
     \<lparr>status_code = 200, reason = ''OK'', response_url = u, soup_of_content = Inr d\<rparr>"

definition example_net :: "string \<Rightarrow> get_result" where
  "example_net u =
     (if u = ''http://a.com/u1'' then Returns (ok_response u example_page)
      else if u = ''http://a.com/u2'' then Raises_RequestException ''Connection refused''
      else if u = ''http://a.com/u3'' then Returns (ok_response u example_page)
      else if u = ''http://a.com/table'' then Returns (ok_response u table_page)
      else if u = ''http://a.com/gappy'' then Returns (ok_response u gappy_page)
      else if u = ''http://a..com/''
      then Raises (LocationParseError (''Failed to parse: '' @ repr ''a..com''
                                          @ '', label empty or too long''))
      else Returns \<lparr>status_code = 404, reason = ''Not Found'', response_url = u,
                    soup_of_content = Inr (Tag ''[document]'' [] [])\<rparr>)"

definition world0 :: world where
  "world0 =
     \<lparr>stdout = [], slept = 0, heap = [], files = (\<lambda>p. None), open_error = (\<lambda>p. None)\<rparr>"

text \<open>
  Two extraction functions: the first builds a new dictionary with the title of the
  page, as the example of the module does; the second returns the one dictionary at
  address 0 on every call.
\<close>

definition title_record :: "node \<Rightarrow> world \<Rightarrow> nat \<times> world" where
  "title_record soup w =
     (length (heap w),
      w\<lparr>heap := heap w @
           [Dict [(''title'', Str (case dict_get (extract_metadata (Some soup)) ''title'' of
                                     Some t \<Rightarrow> t | None \<Rightarrow> []))]]\<rparr>)"

definition shared_record :: "node \<Rightarrow> world \<Rightarrow> nat \<times> world" where
  "shared_record soup w = (0, w)"

definition world1 :: world where
  "world1 =
     \<lparr>stdout = [], slept = 0, heap = [Dict []], files = (\<lambda>p. None),
      open_error = (\<lambda>p. None)\<rparr>"

section \<open>Properties of the extractors\<close>

lemma links_loop_eq:
  "links_loop L self fi hs acc =
     acc @ filter (\<lambda>u. fi \<longrightarrow> netloc L u = netloc L (base_url self))
             (map (urljoin L (base_url self)) hs)"
proof (cases fi)
  case True
  then show ?thesis by (induction hs arbitrary: acc) (simp_all add: Let_def)
next
  case False
  then show ?thesis by (induction hs arbitrary: acc) (simp_all add: Let_def)
qed

lemma set_list_of_set: "set (list_of_set h xs) = set xs"
  by (simp add: list_of_set_def)

lemma distinct_list_of_set: "distinct (list_of_set h xs)"
  by (simp add: list_of_set_def)

lemma anchors_href_example:
  "anchors_href example_page = [''/x'', ''http://b.org/y'', ''/x'']"
  by (simp add: anchors_href_def example_page_def List.map_filter_def)

text \<open>
  Claim C3. Given the absent document (\<^verbatim>\<open>None\<close>), \<^verbatim>\<open>extract_links\<close>, \<^verbatim>\<open>extract_text\<close> and
  \<^verbatim>\<open>extract_images\<close> return the empty list and \<^verbatim>\<open>extract_metadata\<close> returns the empty
  dictionary. Each takes the early return of its guard \<^verbatim>\<open>if not soup\<close>, before any
  operation on the document, so nothing is raised.
\<close>

theorem absent_document_extractors:
  "extract_links L h self None filter_internal = []
   \<and> extract_text None tag = []
   \<and> extract_images L self None = []
   \<and> extract_metadata None = []"
  by (simp add: extract_links_def extract_text_def extract_images_def extract_metadata_def)

text \<open>
  Claim C4, as stated, fails for the absent document: \<^verbatim>\<open>extract_metadata(None)\<close> is the
  empty dictionary, which has none of the three keys.
\<close>

theorem extract_metadata_absent_counterexample:
  "set (keys (extract_metadata None)) \<noteq> {''title'', ''description'', ''keywords''}"
  by (simp add: extract_metadata_def keys_def)

text \<open>
  Claim C4, amended. For every document that is present, \<^verbatim>\<open>extract_metadata\<close> returns a
  dictionary whose keys are exactly \<^verbatim>\<open>title\<close>, \<^verbatim>\<open>description\<close> and \<^verbatim>\<open>keywords\<close>, each bound
  to a string; where the page has no \<^verbatim>\<open>title\<close> element, or no \<^verbatim>\<open>meta\<close> element of that
  name, the value is the placeholder \<^verbatim>\<open>No title\<close>, \<^verbatim>\<open>No description\<close> or \<^verbatim>\<open>No keywords\<close>.
  (For the absent document the result is the empty dictionary.)
\<close>

theorem extract_metadata_present:
  "keys (extract_metadata (Some d)) = [''title'', ''description'', ''keywords'']
   \<and> (\<forall>k \<in> set (keys (extract_metadata (Some d))).
         \<exists>v. dict_get (extract_metadata (Some d)) k = Some v)
   \<and> (find_first ''title'' d = None \<longrightarrow>
        dict_get (extract_metadata (Some d)) ''title'' = Some ''No title'')
   \<and> (find_attrs ''meta'' ''name'' ''description'' d = None \<longrightarrow>
        dict_get (extract_metadata (Some d)) ''description'' = Some ''No description'')
   \<and> (find_attrs ''meta'' ''name'' ''keywords'' d = None \<longrightarrow>
        dict_get (extract_metadata (Some d)) ''keywords'' = Some ''No keywords'')"
  by (simp add: extract_metadata_def keys_def dict_get_def)

theorem extract_metadata_present_witness:
  "find_first ''title'' example_page = None
   \<and> find_attrs ''meta'' ''name'' ''description'' example_page = None
   \<and> find_attrs ''meta'' ''name'' ''keywords'' example_page = None
   \<and> extract_metadata (Some example_page) =
       [(''title'', ''No title''), (''description'', ''No description''),
        (''keywords'', ''No keywords'')]"
proof -
  have t: "find_first ''title'' example_page = None"
    by (simp add: find_first_def find_all_def example_page_def)
  have d: "find_attrs ''meta'' ''name'' ''description'' example_page = None"
    by (simp add: find_attrs_def find_all_def example_page_def)
  have k: "find_attrs ''meta'' ''name'' ''keywords'' example_page = None"
    by (simp add: find_attrs_def find_all_def example_page_def)
  show ?thesis
    using extract_metadata_present [of example_page] t d k
    by (simp add: extract_metadata_def)
qed

text \<open>
  Claim C6. With \<^verbatim>\<open>filter_internal=True\<close> every URL that \<^verbatim>\<open>extract_links\<close> returns has the
  network location of the base URL (the comparison reads \<^verbatim>\<open>urlparse(...).netloc\<close> only,
  neither the scheme nor the path; URLs of equal network location have equal hosts), and
  every URL returned with \<^verbatim>\<open>filter_internal=True\<close> is also returned with
  \<^verbatim>\<open>filter_internal=False\<close> on the same document.
\<close>

theorem extract_links_internal:
  "(\<forall>u \<in> set (extract_links L h self soup True). netloc L u = netloc L (base_url self))
   \<and> set (extract_links L h self soup True) \<subseteq> set (extract_links L h self soup False)"
  by (cases soup) (auto simp: extract_links_def set_list_of_set links_loop_eq)

theorem extract_links_internal_witness:
  "set (extract_links example_urllib length (example_scraper no_network) (Some example_page) True)
     = {''http://a.com/x''}
   \<and> netloc example_urllib ''http://a.com/x''
       = netloc example_urllib (base_url (example_scraper no_network))
   \<and> set (extract_links example_urllib length (example_scraper no_network) (Some example_page) False)
     = {''http://a.com/x'', ''http://b.org/y''}"
  using extract_links_internal
    [of example_urllib length "example_scraper no_network" "Some example_page"]
  by (simp add: extract_links_def set_list_of_set links_loop_eq anchors_href_example
      example_urllib_def example_scraper_def insert_commute)

text \<open>
  Claim C7. For every document, absent or present, and either value of
  \<^verbatim>\<open>filter_internal\<close>, the list that \<^verbatim>\<open>extract_links\<close> returns holds no URL twice, whatever
  the order in which the set iterates.
\<close>

theorem extract_links_distinct:
  "distinct (extract_links L h self soup filter_internal)"
  by (cases soup) (simp_all add: extract_links_def distinct_list_of_set)

section \<open>Properties of the fetcher\<close>






section \<open>Properties of the table scraper\<close>

lemma rows_loop_eq:
  "rows_loop headers rs acc =
     acc @ map (\<lambda>cells. if headers \<noteq> [] then dict_of (zip headers (map Str cells))
                         else [(''data'', Strs cells)])
             (filter (\<lambda>cells. cells \<noteq> []) (map row_cells rs))"
proof (cases "headers = []")
  case True
  then show ?thesis by (induction rs arbitrary: acc) (simp_all add: Let_def)
next
  case False
  then show ?thesis by (induction rs arbitrary: acc) (simp_all add: Let_def)
qed

lemma dict_set_fresh: "k \<notin> fst ` set d \<Longrightarrow> dict_set d k v = d @ [(k, v)]"
  by (induction d) auto

lemma foldl_dict_set_distinct:
  "distinct (map fst (d @ ps)) \<Longrightarrow> foldl (\<lambda>d (k, v). dict_set d k v) d ps = d @ ps"
proof (induction ps arbitrary: d)
  case Nil
  then show ?case by simp
next
  case (Cons p ps)
  obtain k v where p: "p = (k, v)" by (cases p)
  from Cons.prems have fresh: "k \<notin> fst ` set d" by (auto simp: p)
  from Cons.prems have "distinct (map fst ((d @ [(k, v)]) @ ps))" by (simp add: p)
  from Cons.IH [OF this] show ?case by (simp add: p dict_set_fresh [OF fresh])
qed

lemma dict_of_distinct: "distinct (map fst ps) \<Longrightarrow> dict_of ps = ps"
  using foldl_dict_set_distinct [of "[]" ps] by (simp add: dict_of_def)

lemma set_dict_set: "set (dict_set d k v) \<subseteq> insert (k, v) (set d)"
  by (induction d) (auto split: if_splits)

lemma dict_set_nonempty: "dict_set d k v \<noteq> []"
  by (cases d) (auto split: if_splits)

lemma set_foldl_dict_set:
  "set (foldl (\<lambda>d (k, v). dict_set d k v) d ps) \<subseteq> set d \<union> set ps"
proof (induction ps arbitrary: d)
  case Nil
  then show ?case by simp
next
  case (Cons p ps)
  obtain k v where p: "p = (k, v)" by (cases p)
  have "set (foldl (\<lambda>d (k, v). dict_set d k v) (dict_set d k v) ps)
          \<subseteq> set (dict_set d k v) \<union> set ps"
    by (rule Cons.IH)
  also have "\<dots> \<subseteq> set d \<union> set (p # ps)"
    using set_dict_set [of d k v] by (auto simp: p)
  finally show ?case by (simp add: p)
qed

lemma foldl_dict_set_nonempty:
  "d \<noteq> [] \<or> ps \<noteq> [] \<Longrightarrow> foldl (\<lambda>d (k, v). dict_set d k v) d ps \<noteq> []"
proof (induction ps arbitrary: d)
  case Nil
  then show ?case by simp
next
  case (Cons p ps)
  obtain k v where p: "p = (k, v)" by (cases p)
  have "foldl (\<lambda>d (k, v). dict_set d k v) (dict_set d k v) ps \<noteq> []"
    by (rule Cons.IH) (simp add: dict_set_nonempty)
  then show ?case by (simp add: p)
qed

lemma dict_of_nonempty: "ps \<noteq> [] \<Longrightarrow> dict_of ps \<noteq> []"
  by (simp add: dict_of_def foldl_dict_set_nonempty)

lemma set_dict_of: "set (dict_of ps) \<subseteq> set ps"
  using set_foldl_dict_set [of "[]" ps] by (simp add: dict_of_def)

lemma map_filter_notin:
  "(\<And>x. P x \<Longrightarrow> f x \<noteq> y) \<Longrightarrow> y \<notin> set (map f (filter P xs))"
  by auto

text \<open>
  After a fetch that succeeds, and for an index that selects a table, \<^verbatim>\<open>scrape_table\<close>
  returns what its loop over the data rows of that table collects.
\<close>

lemma scrape_table_rows:
  assumes "fetch_page self url w = (Inr (Some soup), w')"
    and "py_index (find_all [''table''] soup) i = Inr table"
  shows "scrape_table self url i w
           = (Inr (rows_loop (table_headers table) (data_rows table) []), w')"
proof -
  from assms(2)
  have "find_all [''table''] soup \<noteq> []" "i < int (length (find_all [''table''] soup))"
    by (auto simp: py_index_def Let_def split: if_splits)
  with assms show ?thesis by (simp add: scrape_table_def Let_def)
qed

lemma fetch_table_page:
  "fetch_page (example_scraper example_net) ''http://a.com/table'' world0
     = (Inr (Some table_page),
        \<lparr>stdout = [''Fetching: http://a.com/table''], slept = 1, heap = [],
         files = (\<lambda>p. None), open_error = (\<lambda>p. None)\<rparr>)"
  by (simp add: fetch_page_def sleep_def sleep_error_def print_def Let_def example_scraper_def
      example_net_def ok_response_def raise_for_status_def world0_def)

lemma fetch_gappy_page:
  "fetch_page (example_scraper example_net) ''http://a.com/gappy'' world0
     = (Inr (Some gappy_page),
        \<lparr>stdout = [''Fetching: http://a.com/gappy''], slept = 1, heap = [],
         files = (\<lambda>p. None), open_error = (\<lambda>p. None)\<rparr>)"
  by (simp add: fetch_page_def sleep_def sleep_error_def print_def Let_def example_scraper_def
      example_net_def ok_response_def raise_for_status_def world0_def)

lemma table_node_headers: "table_headers table_node = [''h1'', ''h2'']"
  by (simp add: table_headers_def table_node_def find_first_def find_all_def get_text_def
      strip_def py_isspace_def)

lemma table_node_cells: "map row_cells (data_rows table_node) = [[''a'', ''b''], [''c'']]"
  by (simp add: row_cells_def data_rows_def table_node_def find_all_def get_text_def
      strip_def py_isspace_def)

lemma table_page_index: "py_index (find_all [''table''] table_page) 0 = Inr table_node"
  by (simp add: py_index_def find_all_def table_page_def table_node_def)

lemma gappy_node_headers: "table_headers gappy_node = [''h1'', ''h2'']"
  by (simp add: table_headers_def gappy_node_def find_first_def find_all_def get_text_def
      strip_def py_isspace_def)

lemma gappy_node_rows: "map row_cells (data_rows gappy_node) = [[''a'', ''b''], [], [''c'']]"
  by (simp add: row_cells_def data_rows_def gappy_node_def find_all_def get_text_def
      strip_def py_isspace_def)

lemma gappy_page_index: "py_index (find_all [''table''] gappy_page) 0 = Inr gappy_node"
  by (simp add: py_index_def find_all_def gappy_page_def gappy_node_def)

text \<open>
  Claim C5. When the fetch succeeds, the index selects a table and the first row of the
  table has cells (it is the header), \<^verbatim>\<open>scrape_table\<close> returns one dictionary for each
  data row that has cells, built from the pairs of the header cells and the row's cells
  at the same position, up to the shorter of the two lengths: header keys beyond the
  row's cells and row cells beyond the header are left out. When the header cells are
  pairwise different the dictionary is that list of pairs itself (a header text that
  occurs twice is one key, bound to the later cell). For the header \<^verbatim>\<open>[h1,h2]\<close> and the
  data rows \<^verbatim>\<open>[[a,b],[c]]\<close> the result is \<^verbatim>\<open>[{h1:a,h2:b},{h1:c}]\<close>.
\<close>

theorem scrape_table_pairs:
  assumes "fetch_page self url w = (Inr (Some soup), w')"
    and "py_index (find_all [''table''] soup) i = Inr table"
    and "table_headers table \<noteq> []"
  shows "fst (scrape_table self url i w) =
           Inr (map (\<lambda>cells.
                       dict_of (zip (take (min (length (table_headers table)) (length cells))
                                          (table_headers table))
                                    (map Str (take (min (length (table_headers table)) (length cells))
                                          cells))))
                  (filter (\<lambda>cells. cells \<noteq> []) (map row_cells (data_rows table))))
         \<and> (distinct (table_headers table) \<longrightarrow>
             fst (scrape_table self url i w) =
               Inr (map (\<lambda>cells.
                           zip (take (min (length (table_headers table)) (length cells))
                                     (table_headers table))
                               (map Str (take (min (length (table_headers table)) (length cells))
                                     cells)))
                      (filter (\<lambda>cells. cells \<noteq> []) (map row_cells (data_rows table)))))"
proof -
  have z: "zip (take (min (length hs) (length cs)) hs)
               (map Str (take (min (length hs) (length cs)) cs))
           = zip hs (map Str cs)" for hs :: "string list" and cs
    by (simp add: take_map [symmetric] zip_map2 take_zip [symmetric])
  have d: "distinct hs \<Longrightarrow> dict_of (zip hs (map Str cs)) = zip hs (map Str cs)"
    for hs :: "string list" and cs
    by (rule dict_of_distinct) (simp add: map_fst_zip_take)
  show ?thesis
    using assms(3) by (simp add: scrape_table_rows [OF assms(1,2)] rows_loop_eq z d)
qed

theorem scrape_table_pairs_witness:
  "table_headers table_node = [''h1'', ''h2'']
   \<and> map row_cells (data_rows table_node) = [[''a'', ''b''], [''c'']]
   \<and> fst (scrape_table (example_scraper example_net) ''http://a.com/table'' 0 world0)
       = Inr [[(''h1'', Str ''a''), (''h2'', Str ''b'')], [(''h1'', Str ''c'')]]"
proof -
  have h: "table_headers table_node \<noteq> []"
    by (simp add: table_node_headers)
  show ?thesis
    using scrape_table_pairs [OF fetch_table_page table_page_index h]
    by (simp add: table_node_headers table_node_cells dict_of_def)
qed

text \<open>
  Claim C10. When the fetch succeeds and the index selects a table, a data row without
  any \<^verbatim>\<open>td\<close> or \<^verbatim>\<open>th\<close> cell adds nothing to the result: the result has one entry for each
  data row that has a cell, which may be fewer than the data rows, and no entry is the
  empty dictionary or the record \<^verbatim>\<open>{"data": []}\<close>.
\<close>

theorem scrape_table_skips_empty_rows:
  assumes "fetch_page self url w = (Inr (Some soup), w')"
    and "py_index (find_all [''table''] soup) i = Inr table"
  shows "\<exists>rs. fst (scrape_table self url i w) = Inr rs
           \<and> length rs = length (filter (\<lambda>row. row_cells row \<noteq> []) (data_rows table))
           \<and> length rs \<le> length (data_rows table)
           \<and> [] \<notin> set rs
           \<and> [(''data'', Strs [])] \<notin> set rs"
proof -
  let ?hs = "table_headers table"
  let ?rec = "\<lambda>cells. if ?hs \<noteq> [] then dict_of (zip ?hs (map Str cells))
                       else [(''data'', Strs cells)]"
  let ?rs = "map ?rec (filter (\<lambda>cells. cells \<noteq> []) (map row_cells (data_rows table)))"
  have res: "fst (scrape_table self url i w) = Inr ?rs"
    by (simp add: scrape_table_rows [OF assms] rows_loop_eq)
  have len: "length ?rs = length (filter (\<lambda>row. row_cells row \<noteq> []) (data_rows table))"
    by (simp add: filter_map comp_def)
  have le: "length ?rs \<le> length (data_rows table)"
    unfolding len by (rule length_filter_le)
  have ne: "?rec cells \<noteq> []" if "cells \<noteq> []" for cells
    using that by (simp add: dict_of_nonempty)
  have nd: "?rec cells \<noteq> [(''data'', Strs [])]" if "cells \<noteq> []" for cells
  proof (cases "?hs = []")
    case True
    with that show ?thesis by simp
  next
    case False
    have "(''data'', Strs []) \<notin> set (zip ?hs (map Str cells))"
      by (auto dest: set_zip_rightD)
    with set_dict_of [of "zip ?hs (map Str cells)"]
    have "(''data'', Strs []) \<notin> set (dict_of (zip ?hs (map Str cells)))" by blast
    then have "dict_of (zip ?hs (map Str cells)) \<noteq> [(''data'', Strs [])]" by auto
    with False show ?thesis by simp
  qed
  have "[] \<notin> set ?rs"
    by (rule map_filter_notin) (rule ne)
  moreover have "[(''data'', Strs [])] \<notin> set ?rs"
    by (rule map_filter_notin) (rule nd)
  ultimately show ?thesis using res len le by blast
qed

theorem scrape_table_skips_empty_rows_witness:
  "map row_cells (data_rows gappy_node) = [[''a'', ''b''], [], [''c'']]
   \<and> fst (scrape_table (example_scraper example_net) ''http://a.com/gappy'' 0 world0)
       = Inr [[(''h1'', Str ''a''), (''h2'', Str ''b'')], [(''h1'', Str ''c'')]]
   \<and> length [[(''h1'', Str ''a''), (''h2'', Str ''b'')], [(''h1'', Str ''c'')]]
       < length (data_rows gappy_node)"
proof -
  have n: "length (data_rows gappy_node) = 3"
    using arg_cong [OF gappy_node_rows, of length] by simp
  have r: "fst (scrape_table (example_scraper example_net) ''http://a.com/gappy'' 0 world0)
       = Inr [[(''h1'', Str ''a''), (''h2'', Str ''b'')], [(''h1'', Str ''c'')]]"
    by (simp add: scrape_table_rows [OF fetch_gappy_page gappy_page_index] rows_loop_eq
        gappy_node_headers gappy_node_rows dict_of_def)
  show ?thesis
    using scrape_table_skips_empty_rows [OF fetch_gappy_page gappy_page_index] n r
    by (simp add: gappy_node_rows)
qed

section \<open>Properties of the CSV export\<close>

lemma dict_to_list_ok:
  "set (keys r) \<subseteq> set fns \<Longrightarrow>
   dict_to_list str_of fns r
     = Inr (map (\<lambda>key. case dict_get r key of Some v \<Rightarrow> str_of v | None \<Rightarrow> []) fns)"
  by (auto simp: dict_to_list_def Let_def filter_empty_conv)

lemma writerows_ok:
  assumes "\<forall>r \<in> set rs. set (keys r) \<subseteq> set fns"
    and "files w filename = Some rows0"
  shows "fst (writerows str_of fns rs filename w) = Inr ()
    \<and> stdout (snd (writerows str_of fns rs filename w)) = stdout w
    \<and> files (snd (writerows str_of fns rs filename w)) filename
        = Some (rows0
                @ map (\<lambda>r. map (\<lambda>key. case dict_get r key of Some v \<Rightarrow> str_of v | None \<Rightarrow> []) fns) rs)"
  using assms
proof (induction rs arbitrary: w rows0)
  case Nil
  then show ?case by simp
next
  case (Cons r rs)
  let ?row = "map (\<lambda>key. case dict_get r key of Some v \<Rightarrow> str_of v | None \<Rightarrow> []) fns"
  from Cons.prems have r: "dict_to_list str_of fns r = Inr ?row"
    by (simp add: dict_to_list_ok)
  have f: "files (write_row filename ?row w) filename = Some (rows0 @ [?row])"
    using Cons.prems(2) by (simp add: write_row_def)
  have s: "stdout (write_row filename ?row w) = stdout w"
    by (simp add: write_row_def)
  from Cons.prems(1) have "\<forall>r \<in> set rs. set (keys r) \<subseteq> set fns" by simp
  from Cons.IH [OF this f] show ?case by (simp add: r s)
qed

text \<open>
  Claim C8, as stated, fails for records whose keys differ: the second record below has
  a key that the first lacks, the writer raises on it, and the file holds the header
  and one data row for two records; the error is printed.
\<close>

theorem save_to_csv_ragged_counterexample:
  "files (save_to_csv id [[(''a'', ''1'')], [(''b'', ''2'')]] ''out.csv'' world0) ''out.csv''
     = Some [[''a''], [''1'']]
   \<and> last (stdout (save_to_csv id [[(''a'', ''1'')], [(''b'', ''2'')]] ''out.csv'' world0))
     = ''Error saving to CSV: dict contains fields not in fieldnames: '' @ repr ''b''"
  by (simp add: save_to_csv_def world0_def write_row_def dict_to_list_def keys_def dict_get_def
      print_def Let_def)

text \<open>
  Claim C8, amended. Given the empty list, \<^verbatim>\<open>save_to_csv\<close> prints \<^verbatim>\<open>No data to save\<close> and
  changes nothing else: no file is written. Given a list that is not empty, when the
  file can be opened for writing and no record has a key that the first record lacks,
  the file holds the keys of the first record as its header row, followed by one row
  for each record, in order, with the record's values under the header's keys (the
  empty string where the record lacks the key), and the success is printed. So
  \<^verbatim>\<open>save_to_csv([{"a":"1","b":"2"}])\<close> writes the header \<^verbatim>\<open>a,b\<close> and the data row \<^verbatim>\<open>1,2\<close>.
\<close>

theorem save_to_csv_rows:
  "save_to_csv str_of [] filename w = w\<lparr>stdout := stdout w @ [''No data to save'']\<rparr>
   \<and> files (save_to_csv str_of [] filename w) = files w
   \<and> (data \<noteq> [] \<and> open_error w filename = None
        \<and> (\<forall>r \<in> set data. set (keys r) \<subseteq> set (keys (hd data)))
      \<longrightarrow> files (save_to_csv str_of data filename w) filename
            = Some (keys (hd data)
                    # map (\<lambda>r. map (\<lambda>key. case dict_get r key of Some v \<Rightarrow> str_of v | None \<Rightarrow> [])
                                  (keys (hd data))) data)
          \<and> last (stdout (save_to_csv str_of data filename w)) = ''Data saved to '' @ filename)"
proof -
  have empty: "save_to_csv str_of [] filename w = w\<lparr>stdout := stdout w @ [''No data to save'']\<rparr>"
    by (simp add: save_to_csv_def print_def)
  have rows: "files (save_to_csv str_of data filename w) filename
            = Some (keys (hd data)
                    # map (\<lambda>r. map (\<lambda>key. case dict_get r key of Some v \<Rightarrow> str_of v | None \<Rightarrow> [])
                                  (keys (hd data))) data)
          \<and> last (stdout (save_to_csv str_of data filename w)) = ''Data saved to '' @ filename"
    if ne: "data \<noteq> []" and op: "open_error w filename = None"
      and ks: "\<forall>r \<in> set data. set (keys r) \<subseteq> set (keys (hd data))"
  proof -
    obtain first others where d: "data = first # others"
      using ne by (cases data) auto
    let ?w2 = "write_row filename (keys first) (w\<lparr>files := (files w)(filename := Some [])\<rparr>)"
    from ks have ks': "\<forall>r \<in> set data. set (keys r) \<subseteq> set (keys first)"
      by (simp add: d)
    obtain u w3 where wr: "writerows str_of (keys first) data filename ?w2 = (u, w3)"
      by (cases "writerows str_of (keys first) data filename ?w2")
    have "files ?w2 filename = Some [keys first]"
      by (simp add: write_row_def)
    from writerows_ok [OF ks' this, of str_of] wr
    have u: "u = Inr ()"
      and f3: "files w3 filename
        = Some ([keys first]
                @ map (\<lambda>r. map (\<lambda>key. case dict_get r key of Some v \<Rightarrow> str_of v | None \<Rightarrow> [])
                              (keys first)) data)"
      by (simp_all add: write_row_def)
    have "save_to_csv str_of data filename w = print (''Data saved to '' @ filename) w3"
      using op wr u by (simp add: save_to_csv_def d Let_def)
    with f3 show ?thesis by (simp add: print_def d)
  qed
  from empty rows show ?thesis by simp
qed

theorem save_to_csv_rows_witness:
  "save_to_csv id ([] :: string dict list) ''out.csv'' world0
     = world0\<lparr>stdout := [''No data to save'']\<rparr>
   \<and> files (save_to_csv id [[(''a'', ''1''), (''b'', ''2'')]] ''out.csv'' world0) ''out.csv''
       = Some [[''a'', ''b''], [''1'', ''2'']]
   \<and> stdout (save_to_csv id [[(''a'', ''1''), (''b'', ''2'')]] ''out.csv'' world0)
       = [''Data saved to out.csv'']"
proof -
  have s: "stdout (save_to_csv id [[(''a'', ''1''), (''b'', ''2'')]] ''out.csv'' world0)
       = [''Data saved to out.csv'']"
    by (simp add: save_to_csv_def world0_def write_row_def dict_to_list_def keys_def dict_get_def
      print_def Let_def)
  show ?thesis
    using save_to_csv_rows [of id "''out.csv''" world0 "[[(''a'', ''1''), (''b'', ''2'')]]"] s
    by (simp add: world0_def keys_def dict_get_def)
qed

section \<open>Properties of the orchestrator\<close>

lemma fetch_page_heap: "heap (snd (fetch_page self url w)) = heap w"
  by (auto simp: fetch_page_def sleep_def print_def Let_def
      split: get_result.splits sum.splits option.splits)

lemma fetch_page_fst: "fst (fetch_page self url w) = fst (fetch_page self url w')"
  by (simp add: fetch_page_def sleep_def print_def Let_def
      split: get_result.splits sum.splits option.splits)

lemma fetch_page_cases:
  obtains e w1 where "fetch_page self url w = (Inl e, w1)"
  | w1 where "fetch_page self url w = (Inr None, w1)" "heap w1 = heap w"
  | soup w1 where "fetch_page self url w = (Inr (Some soup), w1)" "heap w1 = heap w"
proof -
  obtain r w1 where f: "fetch_page self url w = (r, w1)"
    by (cases "fetch_page self url w")
  have h: "heap w1 = heap w"
    using fetch_page_heap [of self url w] by (simp add: f)
  show thesis
  proof (cases r)
    case (Inl e)
    with f that(1) show thesis by simp
  next
    case (Inr x)
    with f h that(2,3) show thesis by (cases x) auto
  qed
qed

lemma no_raise_shift:
  "(\<forall>u \<in> set us. \<not> isl (fst (fetch_page self u w)))
     = (\<forall>u \<in> set us. \<not> isl (fst (fetch_page self u w')))"
  using fetch_page_fst [of self _ w w'] by simp

lemma dict_get_dict_set: "dict_get (dict_set d k v) k = Some v"
  by (induction d) (auto simp: dict_get_def)

lemma url_of_setitem:
  assumes "a < length (heap w)" and "heap w ! a = Dict d"
  shows "\<exists>w3. setitem a ''url'' v w = Inr w3
           \<and> length (heap w3) = length (heap w)
           \<and> url_of w3 a = Some v
           \<and> (\<forall>b. b \<noteq> a \<longrightarrow> url_of w3 b = url_of w b)"
  using assms by (simp add: setitem_def url_of_def dict_get_dict_set)

lemma url_of_prefix:
  assumes "take (length (heap w)) (heap w') = heap w" and "b < length (heap w)"
  shows "url_of w' b = url_of w b"
proof -
  have len: "length (heap w) \<le> length (heap w')"
    using arg_cong [OF assms(1), of length] by simp
  have "heap w ! b = take (length (heap w)) (heap w') ! b"
    by (simp only: assms(1))
  also have "\<dots> = heap w' ! b"
    using assms(2) by simp
  finally have "heap w' ! b = heap w ! b" by simp
  with len assms(2) show ?thesis by (simp add: url_of_def)
qed

lemma pages_loop_records:
  assumes "returns_new_record f"
    and "\<forall>u \<in> set urls. \<not> isl (fst (fetch_page self u w))"
    and "\<forall>a \<in> set acc. a < length (heap w)" and "distinct acc"
  shows "\<exists>addrs w'. pages_loop self f urls acc w = (Inr (acc @ addrs), w')
           \<and> distinct (acc @ addrs)
           \<and> (\<forall>a \<in> set (acc @ addrs). a < length (heap w'))
           \<and> map (url_of w') acc = map (url_of w) acc
           \<and> map (url_of w') addrs
               = map (\<lambda>u. Some (Str u)) (filter (\<lambda>u. fst (fetch_page self u w) \<noteq> Inr None) urls)"
  using assms(2,3,4)
proof (induction urls arbitrary: acc w)
  case Nil
  then show ?case by simp
next
  case (Cons url rest)
  have filt: "filter (\<lambda>u. fst (fetch_page self u w1) \<noteq> Inr None) rest
              = filter (\<lambda>u. fst (fetch_page self u w) \<noteq> Inr None) rest" for w1
    using fetch_page_fst [of self _ w1 w] by simp
  from Cons.prems(1) have head: "\<not> isl (fst (fetch_page self url w))"
    and tail: "\<forall>u \<in> set rest. \<not> isl (fst (fetch_page self u w))"
    by simp_all
  show ?case
  proof (rule fetch_page_cases [of self url w])
    fix e w1
    assume "fetch_page self url w = (Inl e, w1)"
    with head show ?thesis by simp
  next
    fix w1
    assume f: "fetch_page self url w = (Inr None, w1)" and h: "heap w1 = heap w"
    have u: "url_of w1 = url_of w"
      by (rule ext) (simp add: url_of_def h)
    from tail have t1: "\<forall>u \<in> set rest. \<not> isl (fst (fetch_page self u w1))"
      by (simp add: no_raise_shift [of rest self w w1])
    from Cons.prems(2) have "\<forall>a \<in> set acc. a < length (heap w1)" by (simp add: h)
    from Cons.IH [OF t1 this Cons.prems(3)] obtain addrs w' where
      "pages_loop self f rest acc w1 = (Inr (acc @ addrs), w')"
      "distinct (acc @ addrs)" "\<forall>a \<in> set (acc @ addrs). a < length (heap w')"
      "map (url_of w') acc = map (url_of w1) acc"
      "map (url_of w') addrs
         = map (\<lambda>u. Some (Str u)) (filter (\<lambda>u. fst (fetch_page self u w1) \<noteq> Inr None) rest)"
      by blast
    then show ?thesis
      using f by (intro exI [of _ addrs] exI [of _ w']) (simp add: u filt [of w1])
  next
    fix soup w1
    assume f: "fetch_page self url w = (Inr (Some soup), w1)" and h: "heap w1 = heap w"
    obtain a w2 where e: "f soup w1 = (a, w2)" by (cases "f soup w1")
    from assms(1) e have a1: "length (heap w1) \<le> a" and a2: "a < length (heap w2)"
      and pre: "take (length (heap w1)) (heap w2) = heap w1"
      and "\<exists>d. heap w2 ! a = Dict d"
      by (auto simp: returns_new_record_def split: prod.splits)
    then obtain d where d: "heap w2 ! a = Dict d" by blast
    from url_of_setitem [OF a2 d, of "Str url"] obtain w3 where
      s: "setitem a ''url'' (Str url) w2 = Inr w3" and l3: "length (heap w3) = length (heap w2)"
      and ua: "url_of w3 a = Some (Str url)"
      and ub: "\<forall>b. b \<noteq> a \<longrightarrow> url_of w3 b = url_of w2 b"
      by blast
    have old: "url_of w3 b = url_of w b" if "b \<in> set acc" for b
    proof -
      from that Cons.prems(2) have b: "b < length (heap w1)" by (simp add: h)
      with a1 have "b \<noteq> a" by simp
      with ub have "url_of w3 b = url_of w2 b" by simp
      also have "\<dots> = url_of w1 b" by (rule url_of_prefix [OF pre b])
      also have "\<dots> = url_of w b" by (simp add: url_of_def h)
      finally show ?thesis .
    qed
    have fresh: "a \<notin> set acc"
      using Cons.prems(2) a1 by (auto simp: h)
    have bound: "\<forall>b \<in> set (acc @ [a]). b < length (heap w3)"
      using Cons.prems(2) a1 a2 by (auto simp: h l3)
    have dist: "distinct (acc @ [a])"
      using Cons.prems(3) fresh by simp
    from tail have t3: "\<forall>u \<in> set rest. \<not> isl (fst (fetch_page self u w3))"
      by (simp add: no_raise_shift [of rest self w w3])
    from Cons.IH [OF t3 bound dist] obtain addrs w' where
      r: "pages_loop self f rest (acc @ [a]) w3 = (Inr ((acc @ [a]) @ addrs), w')"
      and r1: "distinct ((acc @ [a]) @ addrs)"
      and r2: "\<forall>b \<in> set ((acc @ [a]) @ addrs). b < length (heap w')"
      and r3: "map (url_of w') (acc @ [a]) = map (url_of w3) (acc @ [a])"
      and r4: "map (url_of w') addrs
         = map (\<lambda>u. Some (Str u)) (filter (\<lambda>u. fst (fetch_page self u w3) \<noteq> Inr None) rest)"
      by blast
    have ok: "fst (fetch_page self url w) \<noteq> Inr None"
      by (simp add: f)
    have "pages_loop self f (url # rest) acc w = (Inr (acc @ (a # addrs)), w')"
      using f e s r by simp
    moreover have "distinct (acc @ (a # addrs))"
      using r1 by simp
    moreover have "\<forall>b \<in> set (acc @ (a # addrs)). b < length (heap w')"
      using r2 by simp
    moreover have "map (url_of w') acc = map (url_of w) acc"
      using r3 old by simp
    moreover have "map (url_of w') (a # addrs)
        = map (\<lambda>u. Some (Str u)) (filter (\<lambda>u. fst (fetch_page self u w) \<noteq> Inr None) (url # rest))"
      using r3 r4 ua ok by (simp add: filt [of w3])
    ultimately show ?thesis by blast
  qed
qed

lemma pages_loop_raises:
  assumes "returns_new_record f"
    and "\<exists>u \<in> set urls. isl (fst (fetch_page self u w))"
  shows "isl (fst (pages_loop self f urls acc w))"
  using assms(2)
proof (induction urls arbitrary: acc w)
  case Nil
  then show ?case by simp
next
  case (Cons url rest)
  show ?case
  proof (rule fetch_page_cases [of self url w])
    fix e w1
    assume "fetch_page self url w = (Inl e, w1)"
    then show ?thesis by simp
  next
    fix w1
    assume f: "fetch_page self url w = (Inr None, w1)" and h: "heap w1 = heap w"
    with Cons.prems have "\<exists>u \<in> set rest. isl (fst (fetch_page self u w))" by auto
    then have "\<exists>u \<in> set rest. isl (fst (fetch_page self u w1))"
      using fetch_page_fst [of self _ w w1] by simp
    from Cons.IH [OF this, of acc] show ?thesis using f by simp
  next
    fix soup w1
    assume f: "fetch_page self url w = (Inr (Some soup), w1)" and h: "heap w1 = heap w"
    obtain a w2 where e: "f soup w1 = (a, w2)" by (cases "f soup w1")
    from assms(1) e have a2: "a < length (heap w2)" and "\<exists>d. heap w2 ! a = Dict d"
      by (auto simp: returns_new_record_def split: prod.splits)
    then obtain d where d: "heap w2 ! a = Dict d" by blast
    from url_of_setitem [OF a2 d, of "Str url"] obtain w3 where
      s: "setitem a ''url'' (Str url) w2 = Inr w3"
      by blast
    from f Cons.prems have "\<exists>u \<in> set rest. isl (fst (fetch_page self u w))" by auto
    then have "\<exists>u \<in> set rest. isl (fst (fetch_page self u w3))"
      using fetch_page_fst [of self _ w w3] by simp
    from Cons.IH [OF this, of "acc @ [a]"] show ?thesis using f e s by simp
  qed
qed

lemma fetch_example_simps:
  "fetch_page (example_scraper example_net) ''http://a.com/u1'' w
     = (Inr (Some example_page),
        w\<lparr>stdout := stdout w @ [''Fetching: http://a.com/u1''], slept := slept w + 1\<rparr>)"
  "fetch_page (example_scraper example_net) ''http://a.com/u2'' w
     = (Inr None,
        w\<lparr>stdout := stdout w @ [''Fetching: http://a.com/u2'',
                                ''Error fetching http://a.com/u2: Connection refused'']\<rparr>)"
  "fetch_page (example_scraper example_net) ''http://a.com/u3'' w
     = (Inr (Some example_page),
        w\<lparr>stdout := stdout w @ [''Fetching: http://a.com/u3''], slept := slept w + 1\<rparr>)"
  "fetch_page (example_scraper example_net) ''http://a..com/'' w
     = (Inl (LocationParseError (''Failed to parse: '' @ repr ''a..com''
                                   @ '', label empty or too long'')),
        w\<lparr>stdout := stdout w @ [''Fetching: http://a..com/'']\<rparr>)"
  by (simp_all add: fetch_page_def sleep_def sleep_error_def print_def Let_def
      example_scraper_def example_net_def ok_response_def raise_for_status_def)

text \<open>
  Claim C1, as stated, fails in two ways. For an extraction function that returns the
  same dictionary on every call, \<^verbatim>\<open>data['url'] = url\<close> writes into that one dictionary,
  so for \<^verbatim>\<open>[u1,u2,u3]\<close> where only \<^verbatim>\<open>u2\<close> fails the two records of the result are one
  object, tagged \<^verbatim>\<open>u3\<close> both. And when \<^verbatim>\<open>fetch_page\<close> raises for a URL, the loop ends
  there with the exception: the URL after it is not fetched and no list is returned.
\<close>

theorem scrape_multiple_pages_counterexample:
  "fst (scrape_multiple_pages (example_scraper example_net)
          [''http://a.com/u1'', ''http://a.com/u2'', ''http://a.com/u3''] shared_record world1)
     = Inr [0, 0]
   \<and> map (url_of (snd (scrape_multiple_pages (example_scraper example_net)
          [''http://a.com/u1'', ''http://a.com/u2'', ''http://a.com/u3''] shared_record world1)))
        [0, 0]
     = [Some (Str ''http://a.com/u3''), Some (Str ''http://a.com/u3'')]
   \<and> isl (fst (scrape_multiple_pages (example_scraper example_net)
          [''http://a.com/u1'', ''http://a..com/'', ''http://a.com/u3''] title_record world0))
   \<and> stdout (snd (scrape_multiple_pages (example_scraper example_net)
          [''http://a.com/u1'', ''http://a..com/'', ''http://a.com/u3''] title_record world0))
     = [''Fetching: http://a.com/u1'', ''Fetching: http://a..com/'']"
  by (simp add: scrape_multiple_pages_def fetch_example_simps shared_record_def title_record_def
      setitem_def url_of_def dict_get_def world1_def world0_def)

text \<open>
  Claim C1, amended. Let the extraction function \<^verbatim>\<open>f\<close>, on each call, return a record
  that it creates in that call, and change no object that existed before the call.
  Then, for every list of URLs: if \<^verbatim>\<open>fetch_page\<close> raises for none of them,
  \<^verbatim>\<open>scrape_multiple_pages\<close> returns one record, each a different object, for each URL whose
  fetch gave a document, in the order of the input, the URLs whose fetch gave \<^verbatim>\<open>None\<close>
  being skipped (no error record, no early termination), and the \<^verbatim>\<open>url\<close> field of each
  record is the URL it was fetched from; for \<^verbatim>\<open>[u1,u2,u3]\<close> where only \<^verbatim>\<open>u2\<close> fails the
  result is two records, tagged \<^verbatim>\<open>u1\<close> and \<^verbatim>\<open>u3\<close> in that order. If \<^verbatim>\<open>fetch_page\<close> raises for
  one of the URLs, \<^verbatim>\<open>scrape_multiple_pages\<close> raises and returns no list.
\<close>

theorem scrape_multiple_pages_records:
  assumes "returns_new_record f"
  shows "((\<forall>u \<in> set urls. \<not> isl (fst (fetch_page self u w))) \<longrightarrow>
            (\<exists>addrs w'. scrape_multiple_pages self urls f w = (Inr addrs, w')
               \<and> distinct addrs
               \<and> map (url_of w') addrs
                   = map (\<lambda>u. Some (Str u))
                       (filter (\<lambda>u. fst (fetch_page self u w) \<noteq> Inr None) urls)))
         \<and> ((\<exists>u \<in> set urls. isl (fst (fetch_page self u w))) \<longrightarrow>
              isl (fst (scrape_multiple_pages self urls f w)))"
proof (intro conjI impI)
  assume "\<forall>u \<in> set urls. \<not> isl (fst (fetch_page self u w))"
  from pages_loop_records [OF assms this, of "[]"]
  show "\<exists>addrs w'. scrape_multiple_pages self urls f w = (Inr addrs, w')
               \<and> distinct addrs
               \<and> map (url_of w') addrs
                   = map (\<lambda>u. Some (Str u))
                       (filter (\<lambda>u. fst (fetch_page self u w) \<noteq> Inr None) urls)"
    by (auto simp: scrape_multiple_pages_def)
next
  assume "\<exists>u \<in> set urls. isl (fst (fetch_page self u w))"
  from pages_loop_raises [OF assms this, of "[]"]
  show "isl (fst (scrape_multiple_pages self urls f w))"
    by (simp add: scrape_multiple_pages_def)
qed

theorem scrape_multiple_pages_records_witness:
  "returns_new_record title_record
   \<and> \<not> isl (fst (fetch_page (example_scraper example_net) ''http://a.com/u1'' world0))
   \<and> \<not> isl (fst (fetch_page (example_scraper example_net) ''http://a.com/u2'' world0))
   \<and> \<not> isl (fst (fetch_page (example_scraper example_net) ''http://a.com/u3'' world0))
   \<and> filter (\<lambda>u. fst (fetch_page (example_scraper example_net) u world0) \<noteq> Inr None)
        [''http://a.com/u1'', ''http://a.com/u2'', ''http://a.com/u3'']
       = [''http://a.com/u1'', ''http://a.com/u3'']
   \<and> fst (scrape_multiple_pages (example_scraper example_net)
          [''http://a.com/u1'', ''http://a.com/u2'', ''http://a.com/u3''] title_record world0)
       = Inr [0, 1]
   \<and> heap (snd (scrape_multiple_pages (example_scraper example_net)
          [''http://a.com/u1'', ''http://a.com/u2'', ''http://a.com/u3''] title_record world0))
       = [Dict [(''title'', Str ''No title''), (''url'', Str ''http://a.com/u1'')],
          Dict [(''title'', Str ''No title''), (''url'', Str ''http://a.com/u3'')]]
   \<and> isl (fst (fetch_page (example_scraper example_net) ''http://a..com/'' world0))
   \<and> isl (fst (scrape_multiple_pages (example_scraper example_net)
          [''http://a.com/u1'', ''http://a..com/'', ''http://a.com/u3''] title_record world0))"
proof -
  have n: "returns_new_record title_record"
    by (simp add: returns_new_record_def title_record_def nth_append)
  have t: "dict_get (extract_metadata (Some example_page)) ''title'' = Some ''No title''"
    by (simp add: extract_metadata_def dict_get_def find_first_def find_all_def example_page_def)
  show ?thesis
    using n
      scrape_multiple_pages_records [OF n,
        of "[''http://a.com/u1'', ''http://a.com/u2'', ''http://a.com/u3'']"
           "example_scraper example_net" world0]
      scrape_multiple_pages_records [OF n,
        of "[''http://a.com/u1'', ''http://a..com/'', ''http://a.com/u3'']"
           "example_scraper example_net" world0]
    by (simp add: scrape_multiple_pages_def fetch_example_simps title_record_def t setitem_def
        world0_def)
qed

end
